theory Spec2Isabelle
  imports Complex_Main "HOL-Library.AList"
begin

text \<open>
  \<^verbatim>\<open>server.js\<close> is an Express application in front of a remote store. It keeps a
  process-wide cache of the records, the aliases and the sub-admin password, resolves a
  credential to one of two roles, throttles the writes of the lower role, and writes
  through to the store, reloading the cache after every write. The theory embeds the
  current version of the file (the one with \<^verbatim>\<open>LocalCache\<close> and the sub-admin role)
  handler by handler: a handler is a function from the request and the world (the cache,
  the store, the queries issued so far) to the response and the new world.
\<close>

section \<open>JavaScript values\<close>

text \<open>
  The values that travel between the handlers of \<^verbatim>\<open>server.js\<close>, the store client and
  the cache are JSON values. Numbers are kept to the integers (identifiers, timestamps);
  an object is an association list of its fields.
\<close>

datatype jsval =
    JUndefined
  | JNull
  | JBool bool
  | JNum int
  | JStr string
  | JObj "(string \<times> jsval) list"

type_synonym row = "(string \<times> jsval) list"

text \<open>JavaScript's truthiness, as \<^verbatim>\<open>&&\<close>, \<^verbatim>\<open>||\<close> and \<^verbatim>\<open>if\<close> read a value.\<close>

fun truthy :: "jsval \<Rightarrow> bool" where
  "truthy JUndefined = False"
| "truthy JNull = False"
| "truthy (JBool b) = b"
| "truthy (JNum n) = (n \<noteq> 0)"
| "truthy (JStr s) = (s \<noteq> [])"
| "truthy (JObj fs) = True"

text \<open>
  A request header is a string, or \<^verbatim>\<open>undefined\<close> when the request does not carry it
  (\<open>None\<close>). \<open>strict_eq h v\<close> is \<^verbatim>\<open>h === v\<close> for such a header value \<open>h\<close>.
\<close>

fun strict_eq :: "string option \<Rightarrow> jsval \<Rightarrow> bool" where
  "strict_eq None v = (v = JUndefined)"
| "strict_eq (Some s) v = (v = JStr s)"

section \<open>Configuration and the cache\<close>

text \<open>
  \<^verbatim>\<open>const ADMIN_PASSWORD = process.env.ADMIN_PASSWORD || '888888'\<close>: the argument is the
  environment variable, \<open>None\<close> when it is not set.
\<close>

definition ADMIN_PASSWORD :: "string option \<Rightarrow> string" where
  "ADMIN_PASSWORD env =
     (case env of None \<Rightarrow> ''888888'' | Some s \<Rightarrow> if s = [] then ''888888'' else s)"

record LocalCache =
  records :: "row list"
  aliases :: jsval
  subAdminPwd :: jsval
  lastSubActionTime :: int

text \<open>The object literal \<^verbatim>\<open>LocalCache\<close> as the module creates it.\<close>

definition initial_cache :: LocalCache where
  "initial_cache =
     \<lparr>records = [], aliases = JObj [], subAdminPwd = JNull, lastSubActionTime = 0\<rparr>"

section \<open>Requests, responses and the two middlewares\<close>

datatype role = admin | sub_admin

record request =
  token :: "string option"
  id_param :: string
  body :: row
  userRole :: "role option"

text \<open>
  One constructor for each response a handler sends. The error messages of the source are
  fixed texts and are left out, but for the minutes of the throttling message and the
  message of a caught exception.
\<close>

datatype response =
    Success
  | LoginOk "role option"
  | RecordsJson "row list"
  | AliasesJson jsval
  | RecordUpdated row
  | Unauthorized
  | Forbidden
  | NotFound
  | Conflict
  | TooManyRequests int
  | ServerError string

fun status :: "response \<Rightarrow> nat" where
  "status Success = 200"
| "status (LoginOk r) = 200"
| "status (RecordsJson rs) = 200"
| "status (AliasesJson a) = 200"
| "status (RecordUpdated r) = 200"
| "status Unauthorized = 401"
| "status Forbidden = 403"
| "status NotFound = 404"
| "status Conflict = 409"
| "status (TooManyRequests m) = 429"
| "status (ServerError msg) = 500"

text \<open>
  A middleware either answers the request (\<open>Inl\<close>) or calls \<^verbatim>\<open>next()\<close> on the request
  as it has changed it (\<open>Inr\<close>).
\<close>

definition authMiddleware :: "string \<Rightarrow> LocalCache \<Rightarrow> request \<Rightarrow> response + request" where
  "authMiddleware pw c req =
     (if token req = Some pw then Inr (req\<lparr>userRole := Some admin\<rparr>)
      else if truthy (subAdminPwd c) \<and> strict_eq (token req) (subAdminPwd c)
        then Inr (req\<lparr>userRole := Some sub_admin\<rparr>)
      else Inl Unauthorized)"

definition requireSuperAdmin :: "request \<Rightarrow> response + request" where
  "requireSuperAdmin req = (if userRole req = Some admin then Inr req else Inl Forbidden)"

section \<open>The store client\<close>

text \<open>
  The store is reached through the client \<^verbatim>\<open>supabase\<close>, which is not part of the
  repository; the handlers are therefore modelled over any client. A query, once awaited,
  settles: it is fulfilled with an object \<^verbatim>\<open>{ data, error }\<close>, whose \<open>error\<close> is
  \<^verbatim>\<open>null\<close> (\<open>None\<close>) when the store reports none, or it is rejected and the \<^verbatim>\<open>await\<close>
  throws: the failure that the \<^verbatim>\<open>catch\<close> block of every handler, and the
  \<^verbatim>\<open>.catch\<close> on the first \<^verbatim>\<open>sync\<close> at start-up, are written for.
\<close>

record js_error =
  code :: "string option"
  message :: string

record 'a result =
  data :: "'a option"
  error :: "js_error option"

datatype 'a settled = Fulfilled 'a | Rejected js_error

text \<open>
  The six queries the source builds, each a function of the store's state \<open>'db\<close>:
  \<^item> \<^verbatim>\<open>from('records').select('*').order('play_date', { ascending: false })\<close>,
  \<^item> \<^verbatim>\<open>from('settings').select('value').eq('key', k).single()\<close>, where \<open>data = Some v\<close>
    stands for the row \<^verbatim>\<open>{ value: v }\<close>,
  \<^item> \<^verbatim>\<open>from('settings').upsert({ key: k, value: v })\<close>,
  \<^item> \<^verbatim>\<open>from('records').insert(body)\<close>,
  \<^item> \<^verbatim>\<open>from('records').delete().eq('id', k)\<close>,
  \<^item> \<^verbatim>\<open>from('records').update(updates).eq('id', k).select()\<close>.
\<close>

record 'db client =
  select_records :: "'db \<Rightarrow> row list result settled \<times> 'db"
  select_setting :: "string \<Rightarrow> 'db \<Rightarrow> jsval result settled \<times> 'db"
  upsert_setting :: "string \<Rightarrow> jsval \<Rightarrow> 'db \<Rightarrow> row list result settled \<times> 'db"
  insert_records :: "row \<Rightarrow> 'db \<Rightarrow> row list result settled \<times> 'db"
  delete_records :: "jsval \<Rightarrow> 'db \<Rightarrow> row list result settled \<times> 'db"
  update_records :: "row \<Rightarrow> jsval \<Rightarrow> 'db \<Rightarrow> row list result settled \<times> 'db"

datatype store_call =
    SelectRecords
  | SelectSetting string
  | UpsertSetting string jsval
  | InsertRecords row
  | DeleteRecords jsval
  | UpdateRecords row jsval

text \<open>
  The process: the cache, the store behind the client, and the queries issued so far, in
  the order they were issued.
\<close>

record 'db world =
  cache :: LocalCache
  db :: 'db
  calls :: "store_call list"

text \<open>The world once the query \<open>c\<close> has been issued and has left the store in \<open>d\<close>.\<close>

definition after :: "'db world \<Rightarrow> store_call \<Rightarrow> 'db \<Rightarrow> 'db world" where
  "after w c d = w\<lparr>db := d, calls := calls w @ [c]\<rparr>"

definition issue :: "store_call \<Rightarrow> ('db \<Rightarrow> 'a \<times> 'db) \<Rightarrow> 'db world \<Rightarrow> 'a \<times> 'db world" where
  "issue c q w = (let (r, d) = q (db w) in (r, after w c d))"

text \<open>
  \<^verbatim>\<open>Promise.all\<close> of three queries: the three results, or a rejection. When several
  queries are rejected the model reports the first of them in the order of the array.
\<close>

definition promise_all3 :: "'a settled \<Rightarrow> 'b settled \<Rightarrow> 'c settled \<Rightarrow> ('a \<times> 'b \<times> 'c) settled" where
  "promise_all3 a b c =
     (case a of
        Rejected e \<Rightarrow> Rejected e
      | Fulfilled x \<Rightarrow>
          (case b of
             Rejected e \<Rightarrow> Rejected e
           | Fulfilled y \<Rightarrow>
               (case c of
                  Rejected e \<Rightarrow> Rejected e
                | Fulfilled z \<Rightarrow> Fulfilled (x, y, z))))"

section \<open>LocalCache.sync\<close>

text \<open>
  The three reads are issued together and awaited with \<^verbatim>\<open>Promise.all\<close>; the three
  assignments to the cache follow the \<^verbatim>\<open>await\<close>. The two lines written to the console
  are left out.
\<close>

definition sync :: "'db client \<Rightarrow> bool \<Rightarrow> 'db world \<Rightarrow> unit settled \<times> 'db world" where
  "sync cl forceRefresh w =
     (if records (cache w) \<noteq> [] \<and> \<not> forceRefresh then (Fulfilled (), w)
      else
        (let (recordsP, w1) = issue SelectRecords (select_records cl) w;
             (aliasesP, w2) =
               issue (SelectSetting ''mahjong_aliases'') (select_setting cl ''mahjong_aliases'') w1;
             (subPwdP, w3) =
               issue (SelectSetting ''sub_admin_password'')
                 (select_setting cl ''sub_admin_password'') w2
         in case promise_all3 recordsP aliasesP subPwdP of
              Rejected e \<Rightarrow> (Rejected e, w3)
            | Fulfilled (recordsRes, aliasesRes, subPwdRes) \<Rightarrow>
                (Fulfilled (),
                 w3\<lparr>cache := (cache w3)
                   \<lparr>records := (case data recordsRes of None \<Rightarrow> [] | Some rs \<Rightarrow> rs),
                    aliases := (case data aliasesRes of None \<Rightarrow> JObj [] | Some v \<Rightarrow> v),
                    subAdminPwd := (case data subPwdRes of None \<Rightarrow> JNull | Some v \<Rightarrow> v)\<rparr>\<rparr>)))"

section \<open>The handlers\<close>

text \<open>
  A handler's \<^verbatim>\<open>try\<close> block ends with a response (\<open>Fulfilled\<close>) or with a thrown error
  (\<open>Rejected\<close>); \<^verbatim>\<open>catch (e) { res.status(500).json({ error: e.message }) }\<close> turns the
  latter into a response.
\<close>

definition catch500 :: "response settled \<times> 'w \<Rightarrow> response \<times> 'w" where
  "catch500 r =
     (case fst r of
        Rejected e \<Rightarrow> (ServerError (message e), snd r)
      | Fulfilled resp \<Rightarrow> (resp, snd r))"

text \<open>A route behind \<^verbatim>\<open>authMiddleware\<close>, and one behind \<^verbatim>\<open>requireSuperAdmin\<close> as well.\<close>

definition authenticated ::
  "string \<Rightarrow> (request \<Rightarrow> 'db world \<Rightarrow> response \<times> 'db world) \<Rightarrow> request \<Rightarrow> 'db world
     \<Rightarrow> response \<times> 'db world" where
  "authenticated pw handler req w =
     (case authMiddleware pw (cache w) req of
        Inl resp \<Rightarrow> (resp, w)
      | Inr req1 \<Rightarrow> handler req1 w)"

definition super_admin_only ::
  "string \<Rightarrow> (request \<Rightarrow> 'db world \<Rightarrow> response \<times> 'db world) \<Rightarrow> request \<Rightarrow> 'db world
     \<Rightarrow> response \<times> 'db world" where
  "super_admin_only pw handler =
     authenticated pw
       (\<lambda>req1 w. case requireSuperAdmin req1 of
          Inl resp \<Rightarrow> (resp, w)
        | Inr req2 \<Rightarrow> handler req2 w)"

subsection \<open>POST /api/login\<close>

definition post_login :: "string \<Rightarrow> request \<Rightarrow> 'db world \<Rightarrow> response \<times> 'db world" where
  "post_login pw = authenticated pw (\<lambda>req w. (LoginOk (userRole req), w))"

subsection \<open>POST /api/settings/sub-password\<close>

definition field :: "row \<Rightarrow> string \<Rightarrow> jsval" where
  "field obj k = (case map_of obj k of None \<Rightarrow> JUndefined | Some v \<Rightarrow> v)"

definition upsert_then_sync ::
  "'db client \<Rightarrow> string \<Rightarrow> jsval \<Rightarrow> 'db world \<Rightarrow> response settled \<times> 'db world" where
  "upsert_then_sync cl k v w =
     (let (p, w1) = issue (UpsertSetting k v) (upsert_setting cl k v) w in
      case p of
        Rejected e \<Rightarrow> (Rejected e, w1)
      | Fulfilled res \<Rightarrow>
          (case error res of
             Some err \<Rightarrow> (Rejected err, w1)
           | None \<Rightarrow>
               (let (s, w2) = sync cl True w1 in
                case s of
                  Rejected e \<Rightarrow> (Rejected e, w2)
                | Fulfilled u \<Rightarrow> (Fulfilled Success, w2))))"

definition post_sub_password ::
  "string \<Rightarrow> 'db client \<Rightarrow> request \<Rightarrow> 'db world \<Rightarrow> response \<times> 'db world" where
  "post_sub_password pw cl =
     super_admin_only pw
       (\<lambda>req w. catch500
          (upsert_then_sync cl ''sub_admin_password'' (field (body req) ''password'') w))"

subsection \<open>GET /api/records\<close>

definition get_records :: "'db client \<Rightarrow> 'db world \<Rightarrow> response \<times> 'db world" where
  "get_records cl w =
     catch500
       (let (s, w1) = sync cl False w in
        case s of
          Rejected e \<Rightarrow> (Rejected e, w1)
        | Fulfilled u \<Rightarrow> (Fulfilled (RecordsJson (records (cache w1))), w1))"

subsection \<open>POST /api/records\<close>

definition COOLDOWN :: int where
  "COOLDOWN = 10 * 60 * 1000"

text \<open>
  \<^verbatim>\<open>Math.ceil((COOLDOWN - timeDiff) / 60000)\<close>. The timestamps are whole milliseconds,
  far below \<open>2 ^ 53\<close>, where the quotient of the doubles and the quotient of the reals
  have the same ceiling.
\<close>

definition remainingMin :: "int \<Rightarrow> int" where
  "remainingMin timeDiff = \<lceil>real_of_int (COOLDOWN - timeDiff) / 60000\<rceil>"

text \<open>
  The throttle at the head of the handler, run for a sub-admin request: \<open>now\<close> is what
  \<^verbatim>\<open>Date.now()\<close> returns there. \<open>Some\<close> is the response sent, \<open>None\<close> lets the handler
  go on.
\<close>

definition rate_limit :: "int \<Rightarrow> LocalCache \<Rightarrow> response option" where
  "rate_limit now c =
     (let timeDiff = now - lastSubActionTime c in
      if timeDiff < COOLDOWN then Some (TooManyRequests (remainingMin timeDiff)) else None)"

text \<open>The \<^verbatim>\<open>try\<close> block; \<open>now2\<close> is what the second \<^verbatim>\<open>Date.now()\<close> returns.\<close>

definition insert_then_sync ::
  "'db client \<Rightarrow> int \<Rightarrow> request \<Rightarrow> 'db world \<Rightarrow> response settled \<times> 'db world" where
  "insert_then_sync cl now2 req w =
     (let (p, w1) = issue (InsertRecords (body req)) (insert_records cl (body req)) w in
      case p of
        Rejected e \<Rightarrow> (Rejected e, w1)
      | Fulfilled res \<Rightarrow>
          (case error res of
             Some err \<Rightarrow>
               if code err = Some ''23505'' then (Fulfilled Conflict, w1) else (Rejected err, w1)
           | None \<Rightarrow>
               (let w2 =
                      (if userRole req = Some sub_admin
                       then w1\<lparr>cache := (cache w1)\<lparr>lastSubActionTime := now2\<rparr>\<rparr>
                       else w1);
                    (s, w3) = sync cl True w2
                in case s of
                     Rejected e \<Rightarrow> (Rejected e, w3)
                   | Fulfilled u \<Rightarrow> (Fulfilled Success, w3))))"

definition post_records ::
  "string \<Rightarrow> 'db client \<Rightarrow> int \<Rightarrow> int \<Rightarrow> request \<Rightarrow> 'db world \<Rightarrow> response \<times> 'db world" where
  "post_records pw cl now1 now2 =
     authenticated pw
       (\<lambda>req w.
          case (if userRole req = Some sub_admin then rate_limit now1 (cache w) else None) of
            Some resp \<Rightarrow> (resp, w)
          | None \<Rightarrow> catch500 (insert_then_sync cl now2 req w))"

subsection \<open>GET /api/aliases\<close>

definition get_aliases :: "'db client \<Rightarrow> 'db world \<Rightarrow> response \<times> 'db world" where
  "get_aliases cl w =
     (let (s, w1) = sync cl False w in
      case s of
        Rejected e \<Rightarrow> (AliasesJson (JObj []), w1)
      | Fulfilled u \<Rightarrow> (AliasesJson (aliases (cache w1)), w1))"

subsection \<open>POST /api/aliases\<close>

definition post_aliases ::
  "string \<Rightarrow> 'db client \<Rightarrow> request \<Rightarrow> 'db world \<Rightarrow> response \<times> 'db world" where
  "post_aliases pw cl =
     super_admin_only pw
       (\<lambda>req w. catch500 (upsert_then_sync cl ''mahjong_aliases'' (JObj (body req)) w))"

subsection \<open>DELETE /api/records/:id\<close>

definition delete_then_sync ::
  "'db client \<Rightarrow> request \<Rightarrow> 'db world \<Rightarrow> response settled \<times> 'db world" where
  "delete_then_sync cl req w =
     (let (p, w1) =
            issue (DeleteRecords (JStr (id_param req)))
              (delete_records cl (JStr (id_param req))) w
      in case p of
           Rejected e \<Rightarrow> (Rejected e, w1)
         | Fulfilled res \<Rightarrow>
             (case error res of
                Some err \<Rightarrow> (Rejected err, w1)
              | None \<Rightarrow>
                  (let (s, w2) = sync cl True w1 in
                   case s of
                     Rejected e \<Rightarrow> (Rejected e, w2)
                   | Fulfilled u \<Rightarrow> (Fulfilled Success, w2))))"

definition delete_record ::
  "string \<Rightarrow> 'db client \<Rightarrow> request \<Rightarrow> 'db world \<Rightarrow> response \<times> 'db world" where
  "delete_record pw cl = super_admin_only pw (\<lambda>req w. catch500 (delete_then_sync cl req w))"

subsection \<open>PUT /api/records/:id\<close>

text \<open>\<^verbatim>\<open>/^\d+$/.test(id)\<close>: one decimal digit or more, and nothing else.\<close>

definition all_digits :: "string \<Rightarrow> bool" where
  "all_digits s = (s \<noteq> [] \<and> list_all (\<lambda>c. c \<in> set ''0123456789'') s)"

text \<open>
  \<^verbatim>\<open>parseInt(id)\<close> on a string of decimal digits: its value. (JavaScript rounds a value
  above \<open>2 ^ 53\<close> to a double; the model keeps it exact.)
\<close>

definition parseInt :: "string \<Rightarrow> int" where
  "parseInt s = foldl (\<lambda>n c. 10 * n + (int (of_char c) - 48)) 0 s"

text \<open>\<^verbatim>\<open>!data || data.length === 0\<close>\<close>

definition no_rows :: "row list option \<Rightarrow> bool" where
  "no_rows d = (case d of None \<Rightarrow> True | Some rs \<Rightarrow> rs = [])"

text \<open>
  The first update and, when it is made, the retry: the values of the variables
  \<^verbatim>\<open>data\<close> and \<^verbatim>\<open>error\<close> when the handler reaches \<^verbatim>\<open>if (error) throw error\<close>.
\<close>

definition update_attempts ::
  "'db client \<Rightarrow> string \<Rightarrow> row \<Rightarrow> 'db world
     \<Rightarrow> (row list option \<times> js_error option) settled \<times> 'db world" where
  "update_attempts cl ident updates w =
     (let (p1, w1) =
            issue (UpdateRecords updates (JStr ident))
              (update_records cl updates (JStr ident)) w
      in case p1 of
           Rejected e \<Rightarrow> (Rejected e, w1)
         | Fulfilled first \<Rightarrow>
             if no_rows (data first) then
               if all_digits ident then
                 (let (p2, w2) =
                        issue (UpdateRecords updates (JNum (parseInt ident)))
                          (update_records cl updates (JNum (parseInt ident))) w1
                  in case p2 of
                       Rejected e \<Rightarrow> (Rejected e, w2)
                     | Fulfilled retry \<Rightarrow> (Fulfilled (data retry, error retry), w2))
               else (Fulfilled (data first, error first), w1)
             else (Fulfilled (data first, error first), w1))"

definition update_then_sync ::
  "'db client \<Rightarrow> request \<Rightarrow> 'db world \<Rightarrow> response settled \<times> 'db world" where
  "update_then_sync cl req w =
     (let updates = AList.delete ''id'' (body req);
          (a, w1) = update_attempts cl (id_param req) updates w
      in case a of
           Rejected e \<Rightarrow> (Rejected e, w1)
         | Fulfilled (d, err) \<Rightarrow>
             (case err of
                Some e \<Rightarrow> (Rejected e, w1)
              | None \<Rightarrow>
                  (case d of
                     None \<Rightarrow> (Fulfilled NotFound, w1)
                   | Some [] \<Rightarrow> (Fulfilled NotFound, w1)
                   | Some (r # rs) \<Rightarrow>
                       (let (s, w2) = sync cl True w1 in
                        case s of
                          Rejected e \<Rightarrow> (Rejected e, w2)
                        | Fulfilled u \<Rightarrow> (Fulfilled (RecordUpdated r), w2)))))"

definition put_record ::
  "string \<Rightarrow> 'db client \<Rightarrow> request \<Rightarrow> 'db world \<Rightarrow> response \<times> 'db world" where
  "put_record pw cl = super_admin_only pw (\<lambda>req w. catch500 (update_then_sync cl req w))"

subsection \<open>The callback of app.listen\<close>

definition on_listen :: "'db client \<Rightarrow> 'db world \<Rightarrow> 'db world" where
  "on_listen cl w = snd (sync cl True w)"

text \<open>The three reads of a resynchronisation, in the order \<open>sync\<close> issues them.\<close>

definition resync_reads :: "store_call list" where
  "resync_reads =
     [SelectRecords, SelectSetting ''mahjong_aliases'', SelectSetting ''sub_admin_password'']"

text \<open>A request as it reaches the first middleware: \<^verbatim>\<open>req.userRole\<close> is not set yet.\<close>

definition incoming :: "string option \<Rightarrow> string \<Rightarrow> row \<Rightarrow> request" where
  "incoming t i b = \<lparr>token = t, id_param = i, body = b, userRole = None\<rparr>"

section \<open>A scripted client, for concrete runs\<close>

text \<open>
  A client that answers every query with a fixed, given result: the select of the
  records, either select of a setting, every write (upsert, insert, delete), the update
  under a string key and the update under a numeric key. Its store merely counts the
  queries.
\<close>

definition scripted ::
  "row list result settled \<Rightarrow> jsval result settled \<Rightarrow> row list result settled
     \<Rightarrow> row list result settled \<Rightarrow> row list result settled \<Rightarrow> nat client" where
  "scripted recs setting written by_string by_number =
     \<lparr>select_records = (\<lambda>d. (recs, Suc d)),
      select_setting = (\<lambda>k d. (setting, Suc d)),
      upsert_setting = (\<lambda>k v d. (written, Suc d)),
      insert_records = (\<lambda>b d. (written, Suc d)),
      delete_records = (\<lambda>k d. (written, Suc d)),
      update_records =
        (\<lambda>u k d. (case k of JNum n \<Rightarrow> by_number | _ \<Rightarrow> by_string, Suc d))\<rparr>"

definition ok :: "'a option \<Rightarrow> 'a result settled" where
  "ok d = Fulfilled \<lparr>data = d, error = None\<rparr>"

definition failed :: "string option \<Rightarrow> string \<Rightarrow> 'a result settled" where
  "failed c m = Fulfilled \<lparr>data = None, error = Some \<lparr>code = c, message = m\<rparr>\<rparr>"

definition world0 :: "LocalCache \<Rightarrow> nat world" where
  "world0 c = \<lparr>cache = c, db = 0, calls = []\<rparr>"

section \<open>Basic facts\<close>

lemma issue_eq: "q (db w) = (r, d) \<Longrightarrow> issue c q w = (r, after w c d)"
  by (simp add: issue_def)

lemma after_simps:
  "cache (after w c d) = cache w" "db (after w c d) = d" "calls (after w c d) = calls w @ [c]"
  by (simp_all add: after_def)

lemma snd_catch500: "snd (catch500 r) = snd r"
  by (simp add: catch500_def split: settled.splits)

lemma sync_skip:
  "records (cache w) \<noteq> [] \<Longrightarrow> sync cl False w = (Fulfilled (), w)"
  by (simp add: sync_def)

lemma sync_calls:
  "forceRefresh \<or> records (cache w) = [] \<Longrightarrow>
   calls (snd (sync cl forceRefresh w)) = calls w @ resync_reads"
  by (auto simp: sync_def issue_def after_def resync_reads_def Let_def
      split: prod.splits settled.splits)

lemma sync_lastSubActionTime:
  "lastSubActionTime (cache (snd (sync cl forceRefresh w))) = lastSubActionTime (cache w)"
  by (auto simp: sync_def issue_def after_def Let_def split: prod.splits settled.splits)

lemma sync_rejected_cache:
  "fst (sync cl forceRefresh w) = Rejected e \<Longrightarrow> cache (snd (sync cl forceRefresh w)) = cache w"
  by (auto simp: sync_def issue_def after_def Let_def split: prod.splits settled.splits if_splits)

lemma sync_records:
  assumes "forceRefresh \<or> records (cache w) = []"
    and "sync cl forceRefresh w = (Fulfilled u, w')"
    and "select_records cl (db w) = (Fulfilled res, d)"
  shows "records (cache w') = (case data res of None \<Rightarrow> [] | Some rs \<Rightarrow> rs)"
  using assms
  by (auto simp: sync_def issue_def after_def Let_def promise_all3_def
      split: prod.splits settled.splits if_splits)

lemma authMiddleware_Inr:
  "authMiddleware pw c req = Inr req' \<Longrightarrow> body req' = body req \<and> id_param req' = id_param req"
  by (auto simp: authMiddleware_def split: if_splits)

lemma authenticated_as:
  "authMiddleware pw (cache w) req = Inr req' \<Longrightarrow> authenticated pw h req w = h req' w"
  by (simp add: authenticated_def)

lemma super_admin_only_admin:
  "token req = Some pw \<Longrightarrow>
   super_admin_only pw h req w = h (req\<lparr>userRole := Some admin\<rparr>) w"
  by (simp add: super_admin_only_def authenticated_def authMiddleware_def requireSuperAdmin_def)

lemma super_admin_only_sub_admin:
  "authMiddleware pw (cache w) req = Inr (req\<lparr>userRole := Some sub_admin\<rparr>) \<Longrightarrow>
   super_admin_only pw h req w = (Forbidden, w)"
  by (simp add: super_admin_only_def authenticated_def requireSuperAdmin_def)


text \<open>The definitions a concrete run unfolds.\<close>

lemmas run_defs =
  scripted_def ok_def failed_def world0_def incoming_def initial_cache_def authMiddleware_def
  sync_def issue_def after_def promise_all3_def resync_reads_def

section \<open>Role resolution\<close>

lemma authMiddleware_admin:
  "token req = Some pw \<Longrightarrow> authMiddleware pw c req = Inr (req\<lparr>userRole := Some admin\<rparr>)"
  by (simp add: authMiddleware_def)

lemma sub_admin_match:
  "(truthy v \<and> strict_eq t v) = (\<exists>s. s \<noteq> [] \<and> v = JStr s \<and> t = Some s)"
  by (cases t; cases v) auto

text \<open>
  C1. Role resolution, for every credential \<open>token req\<close>, every configured super-admin
  secret \<open>pw\<close> and every cache \<open>c\<close>: a credential equal to \<open>pw\<close> gives the role
  \<open>admin\<close>, whatever the cached sub-admin secret is (also when it equals the credential);
  any other credential gives \<open>sub_admin\<close> exactly when the cached secret is a non-empty
  string equal to it; every remaining request is answered 401. A cache whose
  sub-admin secret is \<^verbatim>\<open>null\<close>, \<^verbatim>\<open>undefined\<close> or the empty string classifies no
  credential as sub-admin.
\<close>

theorem role_resolution:
  "(token req = Some pw \<longrightarrow>
      authMiddleware pw c req = Inr (req\<lparr>userRole := Some admin\<rparr>))
   \<and> (token req \<noteq> Some pw \<and> (\<exists>s. s \<noteq> [] \<and> subAdminPwd c = JStr s \<and> token req = Some s) \<longrightarrow>
      authMiddleware pw c req = Inr (req\<lparr>userRole := Some sub_admin\<rparr>))
   \<and> (token req \<noteq> Some pw \<and> \<not> (\<exists>s. s \<noteq> [] \<and> subAdminPwd c = JStr s \<and> token req = Some s) \<longrightarrow>
      authMiddleware pw c req = Inl Unauthorized \<and> status Unauthorized = 401)
   \<and> (subAdminPwd c \<in> {JNull, JUndefined, JStr []} \<longrightarrow>
      authMiddleware pw c req \<noteq> Inr (req\<lparr>userRole := Some sub_admin\<rparr>))"
proof (intro conjI impI)
  assume "token req = Some pw"
  then show "authMiddleware pw c req = Inr (req\<lparr>userRole := Some admin\<rparr>)"
    by (rule authMiddleware_admin)
next
  assume "token req \<noteq> Some pw \<and> (\<exists>s. s \<noteq> [] \<and> subAdminPwd c = JStr s \<and> token req = Some s)"
  then show "authMiddleware pw c req = Inr (req\<lparr>userRole := Some sub_admin\<rparr>)"
    by (auto simp: authMiddleware_def)
next
  assume h: "token req \<noteq> Some pw \<and> \<not> (\<exists>s. s \<noteq> [] \<and> subAdminPwd c = JStr s \<and> token req = Some s)"
  then have "\<not> (truthy (subAdminPwd c) \<and> strict_eq (token req) (subAdminPwd c))"
    by (simp only: sub_admin_match not_False_eq_True)
  with h show "authMiddleware pw c req = Inl Unauthorized"
    by (simp add: authMiddleware_def)
next
  show "status Unauthorized = 401" by simp
next
  assume "subAdminPwd c \<in> {JNull, JUndefined, JStr []}"
  then have "\<not> truthy (subAdminPwd c)" by auto
  then show "authMiddleware pw c req \<noteq> Inr (req\<lparr>userRole := Some sub_admin\<rparr>)"
    by (auto simp: authMiddleware_def dest: arg_cong [where f = userRole])
qed

theorem role_resolution_witness:
  "authMiddleware ''888888'' (initial_cache\<lparr>subAdminPwd := JStr ''888888''\<rparr>)
      (incoming (Some ''888888'') [] [])
     = Inr ((incoming (Some ''888888'') [] [])\<lparr>userRole := Some admin\<rparr>)
   \<and> authMiddleware ''888888'' (initial_cache\<lparr>subAdminPwd := JStr ''tiles''\<rparr>)
      (incoming (Some ''tiles'') [] [])
     = Inr ((incoming (Some ''tiles'') [] [])\<lparr>userRole := Some sub_admin\<rparr>)
   \<and> authMiddleware ''888888'' (initial_cache\<lparr>subAdminPwd := JStr ''tiles''\<rparr>)
      (incoming (Some ''guess'') [] [])
     = Inl Unauthorized
   \<and> authMiddleware ''888888'' (initial_cache\<lparr>subAdminPwd := JStr []\<rparr>)
      (incoming (Some []) [] [])
     \<noteq> Inr ((incoming (Some []) [] [])\<lparr>userRole := Some sub_admin\<rparr>)"
  using
    role_resolution [of "incoming (Some ''888888'') [] []" "''888888''"
      "initial_cache\<lparr>subAdminPwd := JStr ''888888''\<rparr>"]
    role_resolution [of "incoming (Some ''tiles'') [] []" "''888888''"
      "initial_cache\<lparr>subAdminPwd := JStr ''tiles''\<rparr>"]
    role_resolution [of "incoming (Some ''guess'') [] []" "''888888''"
      "initial_cache\<lparr>subAdminPwd := JStr ''tiles''\<rparr>"]
    role_resolution [of "incoming (Some []) [] []" "''888888''"
      "initial_cache\<lparr>subAdminPwd := JStr []\<rparr>"]
  by (simp add: incoming_def initial_cache_def)

section \<open>Lazy synchronisation\<close>

lemma get_records_calls:
  "records (cache w) = [] \<Longrightarrow> calls (snd (get_records cl w)) = calls w @ resync_reads"
  using sync_calls [of False w cl]
  by (simp add: get_records_def catch500_def split_beta split: settled.splits)

lemma get_aliases_calls:
  "records (cache w) = [] \<Longrightarrow> calls (snd (get_aliases cl w)) = calls w @ resync_reads"
  using sync_calls [of False w cl]
  by (simp add: get_aliases_def split_beta split: settled.splits)

text \<open>
  C5. Lazy sync: whenever the cached records are not empty, \<open>sync cl False\<close> returns at
  once and leaves the whole world as it was: no query is issued, the store is not touched,
  and no field of the cache changes (records, aliases, sub-admin secret, timestamp).
  GET /api/records then answers with the cached records, again without any query.
\<close>

theorem lazy_sync_skips:
  "records (cache w) \<noteq> [] \<longrightarrow>
     sync cl False w = (Fulfilled (), w)
     \<and> calls (snd (sync cl False w)) = calls w
     \<and> db (snd (sync cl False w)) = db w
     \<and> cache (snd (sync cl False w)) = cache w
     \<and> get_records cl w = (RecordsJson (records (cache w)), w)"
  by (simp add: sync_skip get_records_def catch500_def)

theorem lazy_sync_skips_witness:
  "get_records
      (scripted (Rejected \<lparr>code = None, message = ''offline''\<rparr>) (ok None) (ok None) (ok None) (ok None))
      (world0 (initial_cache\<lparr>records := [[(''id'', JNum 1)]]\<rparr>))
     = (RecordsJson [[(''id'', JNum 1)]],
        world0 (initial_cache\<lparr>records := [[(''id'', JNum 1)]]\<rparr>))"
  using lazy_sync_skips
    [where w = "world0 (initial_cache\<lparr>records := [[(''id'', JNum 1)]]\<rparr>)"
      and cl = "scripted (Rejected \<lparr>code = None, message = ''offline''\<rparr>) (ok None) (ok None)
        (ok None) (ok None)"]
  by (simp add: world0_def initial_cache_def)

text \<open>
  C9. The skip of \<open>sync\<close> looks at nothing but the cached records: with an empty list,
  \<open>sync cl False\<close> issues the three reads again, and so does every lazy read
  (GET /api/records, GET /api/aliases). A synchronisation that completes while the read
  of the records brings no row (its \<open>data\<close> is \<^verbatim>\<open>null\<close>, as on a failed read, or the
  empty array) leaves the cached list empty, so the next lazy read reloads everything once
  more.
\<close>

theorem empty_cache_reloads:
  "(records (cache w) = [] \<longrightarrow>
      calls (snd (sync cl False w)) = calls w @ resync_reads
      \<and> calls (snd (get_records cl w)) = calls w @ resync_reads
      \<and> calls (snd (get_aliases cl w)) = calls w @ resync_reads)
   \<and> ((forceRefresh \<or> records (cache w) = [])
        \<and> sync cl forceRefresh w = (Fulfilled u, w')
        \<and> select_records cl (db w) = (Fulfilled res, d)
        \<and> no_rows (data res) \<longrightarrow>
      records (cache w') = []
      \<and> calls (snd (sync cl False w')) = calls w' @ resync_reads
      \<and> calls (snd (get_records cl w')) = calls w' @ resync_reads)"
proof (intro conjI impI)
  assume "records (cache w) = []"
  then show "calls (snd (sync cl False w)) = calls w @ resync_reads"
    and "calls (snd (get_records cl w)) = calls w @ resync_reads"
    and "calls (snd (get_aliases cl w)) = calls w @ resync_reads"
    by (simp_all add: sync_calls get_records_calls get_aliases_calls)
next
  assume h: "(forceRefresh \<or> records (cache w) = [])
        \<and> sync cl forceRefresh w = (Fulfilled u, w')
        \<and> select_records cl (db w) = (Fulfilled res, d)
        \<and> no_rows (data res)"
  then have "records (cache w') = (case data res of None \<Rightarrow> [] | Some rs \<Rightarrow> rs)"
    by (intro sync_records [of forceRefresh w cl u w' res d]) simp_all
  with h show e: "records (cache w') = []"
    by (simp add: no_rows_def split: option.splits)
  from e show "calls (snd (sync cl False w')) = calls w' @ resync_reads"
    by (simp add: sync_calls)
  from e show "calls (snd (get_records cl w')) = calls w' @ resync_reads"
    by (rule get_records_calls)
qed

theorem empty_cache_reloads_witness:
  "calls (snd (get_records
      (scripted (failed None ''timeout'') (ok None) (ok None) (ok None) (ok None))
      (on_listen (scripted (failed None ''timeout'') (ok None) (ok None) (ok None) (ok None))
        (world0 initial_cache))))
     = resync_reads @ resync_reads
   \<and> calls (snd (get_records
      (scripted (ok (Some [])) (ok None) (ok None) (ok None) (ok None))
      (on_listen (scripted (ok (Some [])) (ok None) (ok None) (ok None) (ok None))
        (world0 initial_cache))))
     = resync_reads @ resync_reads"
  using
    empty_cache_reloads
      [where cl = "scripted (failed None ''timeout'') (ok None) (ok None) (ok None) (ok None)"
        and w = "world0 initial_cache" and forceRefresh = True and u = "()"
        and w' = "on_listen (scripted (failed None ''timeout'') (ok None) (ok None) (ok None) (ok None))
          (world0 initial_cache)"
        and res = "\<lparr>data = None, error = Some \<lparr>code = None, message = ''timeout''\<rparr>\<rparr>"
        and d = 1]
    empty_cache_reloads
      [where cl = "scripted (ok (Some [])) (ok None) (ok None) (ok None) (ok None)"
        and w = "world0 initial_cache" and forceRefresh = True and u = "()"
        and w' = "on_listen (scripted (ok (Some [])) (ok None) (ok None) (ok None) (ok None))
          (world0 initial_cache)"
        and res = "\<lparr>data = Some [], error = None\<rparr>"
        and d = 1]
  by (simp add: run_defs on_listen_def no_rows_def)

section \<open>Writing a record: the throttle and the failed insert\<close>

lemma remainingMin_bounds:
  "60000 * (remainingMin t - 1) < COOLDOWN - t \<and> COOLDOWN - t \<le> 60000 * remainingMin t"
proof -
  define x where "x = real_of_int (COOLDOWN - t) / 60000"
  have e: "real_of_int (COOLDOWN - t) = 60000 * x"
    by (simp add: x_def)
  have "of_int \<lceil>x\<rceil> - 1 < x" and "x \<le> of_int \<lceil>x\<rceil>"
    by linarith+
  with e have "real_of_int (60000 * (\<lceil>x\<rceil> - 1)) < real_of_int (COOLDOWN - t)"
    and "real_of_int (COOLDOWN - t) \<le> real_of_int (60000 * \<lceil>x\<rceil>)"
    by simp_all
  then have "60000 * (\<lceil>x\<rceil> - 1) < COOLDOWN - t" and "COOLDOWN - t \<le> 60000 * \<lceil>x\<rceil>"
    by (simp_all only: of_int_less_iff of_int_le_iff)
  then show ?thesis
    unfolding remainingMin_def x_def by simp
qed

lemma insert_rejected:
  "insert_records cl (body req) (db w) = (Rejected e, d) \<Longrightarrow>
   insert_then_sync cl t req w = (Rejected e, after w (InsertRecords (body req)) d)"
  by (simp add: insert_then_sync_def issue_eq)

lemma insert_error:
  "insert_records cl (body req) (db w) = (Fulfilled res, d) \<Longrightarrow> error res = Some err \<Longrightarrow>
   insert_then_sync cl t req w =
     (if code err = Some ''23505'' then Fulfilled Conflict else Rejected err,
      after w (InsertRecords (body req)) d)"
  by (simp add: insert_then_sync_def issue_eq)

lemma insert_then_sync_calls:
  "\<exists>cs. calls (snd (insert_then_sync cl t req w)) = calls w @ InsertRecords (body req) # cs"
  by (cases "insert_records cl (body req) (db w)")
     (simp add: insert_then_sync_def issue_eq Let_def split_beta sync_calls after_simps
       split: settled.splits option.splits)

lemma insert_then_sync_not_429:
  "status (fst (catch500 (insert_then_sync cl t req w))) \<noteq> 429"
  by (cases "insert_records cl (body req) (db w)")
     (simp add: insert_then_sync_def issue_eq Let_def split_beta catch500_def
       split: settled.splits option.splits)

lemma insert_then_sync_time:
  "lastSubActionTime (cache (snd (insert_then_sync cl t req w))) \<noteq> lastSubActionTime (cache w) \<Longrightarrow>
   \<exists>res d. insert_records cl (body req) (db w) = (Fulfilled res, d) \<and> error res = None"
  by (cases "insert_records cl (body req) (db w)")
     (auto simp add: insert_then_sync_def issue_eq Let_def split_beta after_simps
       split: settled.splits option.splits if_splits)

lemma post_records_as:
  "authMiddleware pw (cache w) req = Inr req' \<Longrightarrow>
   post_records pw cl now later req w =
     (case (if userRole req' = Some sub_admin then rate_limit now (cache w) else None) of
        Some resp \<Rightarrow> (resp, w)
      | None \<Rightarrow> catch500 (insert_then_sync cl later req' w))"
  by (simp add: post_records_def authenticated_as)

lemma post_records_unauthorized:
  "authMiddleware pw (cache w) req = Inl resp \<Longrightarrow> post_records pw cl now later req w = (resp, w)"
  by (simp add: post_records_def authenticated_def)

lemma post_records_reaches_insert:
  assumes "authMiddleware pw (cache w) req = Inr req'"
    and "userRole req' = Some sub_admin \<longrightarrow> COOLDOWN \<le> now - lastSubActionTime (cache w)"
  shows "post_records pw cl now later req w = catch500 (insert_then_sync cl later req' w)"
    and "body req' = body req"
  using assms authMiddleware_Inr [of pw "cache w" req req']
  by (auto simp: post_records_as rate_limit_def Let_def)

lemma post_records_insert_error:
  assumes "authMiddleware pw (cache w) req = Inr req'"
    and "userRole req' = Some sub_admin \<longrightarrow> COOLDOWN \<le> now - lastSubActionTime (cache w)"
    and "insert_records cl (body req) (db w) = (Fulfilled res, d)"
    and "error res = Some err"
  shows "post_records pw cl now later req w =
     (if code err = Some ''23505'' then Conflict else ServerError (message err),
      w\<lparr>db := d, calls := calls w @ [InsertRecords (body req)]\<rparr>)"
  using post_records_reaches_insert [OF assms(1,2)] assms(3,4)
    insert_error [of cl req' w res d err later]
  by (simp add: catch500_def after_def)

lemma post_records_insert_rejected:
  assumes "authMiddleware pw (cache w) req = Inr req'"
    and "userRole req' = Some sub_admin \<longrightarrow> COOLDOWN \<le> now - lastSubActionTime (cache w)"
    and "insert_records cl (body req) (db w) = (Rejected e, d)"
  shows "post_records pw cl now later req w =
     (ServerError (message e), w\<lparr>db := d, calls := calls w @ [InsertRecords (body req)]\<rparr>)"
  using post_records_reaches_insert [OF assms(1,2)] assms(3)
    insert_rejected [of cl req' w e d later]
  by (simp add: catch500_def after_def)

lemma post_records_time:
  assumes "lastSubActionTime (cache (snd (post_records pw cl now later req w)))
      \<noteq> lastSubActionTime (cache w)"
  shows "\<exists>res d. insert_records cl (body req) (db w) = (Fulfilled res, d) \<and> error res = None"
proof (cases "authMiddleware pw (cache w) req")
  case (Inl resp)
  with assms show ?thesis by (simp add: post_records_unauthorized)
next
  case (Inr req')
  have b: "body req' = body req" using Inr by (simp add: authMiddleware_Inr)
  from assms Inr
  have "lastSubActionTime (cache (snd (insert_then_sync cl later req' w)))
      \<noteq> lastSubActionTime (cache w)"
    by (auto simp: post_records_as catch500_def split: option.splits settled.splits if_splits)
  from insert_then_sync_time [OF this] b show ?thesis by simp
qed

text \<open>
  C2. Rate limiting of POST /api/records, where \<open>now\<close> is the clock at the check and the
  cooldown is ten minutes (600000 ms) from \<open>lastSubActionTime\<close>. A request resolved to
  sub-admin with \<open>now - lastSubActionTime < COOLDOWN\<close> is answered 429 with the minutes
  \<open>\<lceil>(COOLDOWN - elapsed) / 60000\<rceil>\<close>, the least number of whole minutes that covers the
  remaining time, and the world is left untouched: no query reaches the store. With
  \<open>now - lastSubActionTime \<ge> COOLDOWN\<close> the request is not answered 429 and the insert
  is issued. A request resolved to super-admin is never answered 429, at any time, and
  its insert is issued.
\<close>

theorem rate_limiting:
  "(authMiddleware pw (cache w) req = Inr (req\<lparr>userRole := Some sub_admin\<rparr>)
      \<and> now - lastSubActionTime (cache w) < COOLDOWN \<longrightarrow>
        post_records pw cl now later req w =
          (TooManyRequests
             \<lceil>real_of_int (COOLDOWN - (now - lastSubActionTime (cache w))) / 60000\<rceil>, w)
        \<and> status (fst (post_records pw cl now later req w)) = 429
        \<and> 60000 * (remainingMin (now - lastSubActionTime (cache w)) - 1)
            < COOLDOWN - (now - lastSubActionTime (cache w))
        \<and> COOLDOWN - (now - lastSubActionTime (cache w))
            \<le> 60000 * remainingMin (now - lastSubActionTime (cache w)))
   \<and> (authMiddleware pw (cache w) req = Inr (req\<lparr>userRole := Some sub_admin\<rparr>)
      \<and> COOLDOWN \<le> now - lastSubActionTime (cache w) \<longrightarrow>
        status (fst (post_records pw cl now later req w)) \<noteq> 429
        \<and> (\<exists>cs. calls (snd (post_records pw cl now later req w))
              = calls w @ InsertRecords (body req) # cs))
   \<and> (authMiddleware pw (cache w) req = Inr (req\<lparr>userRole := Some admin\<rparr>) \<longrightarrow>
        status (fst (post_records pw cl now later req w)) \<noteq> 429
        \<and> (\<exists>cs. calls (snd (post_records pw cl now later req w))
              = calls w @ InsertRecords (body req) # cs))
   \<and> COOLDOWN = 600000"
proof (intro conjI impI)
  assume h: "authMiddleware pw (cache w) req = Inr (req\<lparr>userRole := Some sub_admin\<rparr>)
      \<and> now - lastSubActionTime (cache w) < COOLDOWN"
  then show r: "post_records pw cl now later req w =
          (TooManyRequests
             \<lceil>real_of_int (COOLDOWN - (now - lastSubActionTime (cache w))) / 60000\<rceil>, w)"
    by (simp add: post_records_as rate_limit_def remainingMin_def)
  then show "status (fst (post_records pw cl now later req w)) = 429"
    by simp
  show "60000 * (remainingMin (now - lastSubActionTime (cache w)) - 1)
            < COOLDOWN - (now - lastSubActionTime (cache w))"
    and "COOLDOWN - (now - lastSubActionTime (cache w))
            \<le> 60000 * remainingMin (now - lastSubActionTime (cache w))"
    using remainingMin_bounds [of "now - lastSubActionTime (cache w)"] by simp_all
next
  assume h: "authMiddleware pw (cache w) req = Inr (req\<lparr>userRole := Some sub_admin\<rparr>)
      \<and> COOLDOWN \<le> now - lastSubActionTime (cache w)"
  then have e: "post_records pw cl now later req w
      = catch500 (insert_then_sync cl later (req\<lparr>userRole := Some sub_admin\<rparr>) w)"
    by (simp add: post_records_as rate_limit_def)
  show "status (fst (post_records pw cl now later req w)) \<noteq> 429"
    unfolding e by (rule insert_then_sync_not_429)
  show "\<exists>cs. calls (snd (post_records pw cl now later req w))
              = calls w @ InsertRecords (body req) # cs"
    using insert_then_sync_calls [of cl later "req\<lparr>userRole := Some sub_admin\<rparr>" w]
    by (simp add: e snd_catch500)
next
  assume h: "authMiddleware pw (cache w) req = Inr (req\<lparr>userRole := Some admin\<rparr>)"
  then have e: "post_records pw cl now later req w
      = catch500 (insert_then_sync cl later (req\<lparr>userRole := Some admin\<rparr>) w)"
    by (simp add: post_records_as)
  show "status (fst (post_records pw cl now later req w)) \<noteq> 429"
    unfolding e by (rule insert_then_sync_not_429)
  show "\<exists>cs. calls (snd (post_records pw cl now later req w))
              = calls w @ InsertRecords (body req) # cs"
    using insert_then_sync_calls [of cl later "req\<lparr>userRole := Some admin\<rparr>" w]
    by (simp add: e snd_catch500)
next
  show "COOLDOWN = 600000" by (simp add: COOLDOWN_def)
qed

theorem rate_limiting_witness:
  "post_records ''888888'' (scripted (ok (Some [])) (ok None) (ok None) (ok None) (ok None))
      1700000300000 1700000300001 (incoming (Some ''tiles'') [] [(''east'', JNum 25)])
      (world0 (initial_cache\<lparr>subAdminPwd := JStr ''tiles'', lastSubActionTime := 1700000000000\<rparr>))
     = (TooManyRequests 5,
        world0 (initial_cache\<lparr>subAdminPwd := JStr ''tiles'', lastSubActionTime := 1700000000000\<rparr>))
   \<and> status (fst (post_records ''888888''
      (scripted (ok (Some [])) (ok None) (ok None) (ok None) (ok None))
      1700000600000 1700000600001 (incoming (Some ''tiles'') [] [(''east'', JNum 25)])
      (world0 (initial_cache\<lparr>subAdminPwd := JStr ''tiles'', lastSubActionTime := 1700000000000\<rparr>))))
     \<noteq> 429
   \<and> status (fst (post_records ''888888''
      (scripted (ok (Some [])) (ok None) (ok None) (ok None) (ok None))
      1700000000001 1700000000002 (incoming (Some ''888888'') [] [(''east'', JNum 25)])
      (world0 (initial_cache\<lparr>subAdminPwd := JStr ''tiles'', lastSubActionTime := 1700000000000\<rparr>))))
     \<noteq> 429"
  using
    rate_limiting [where pw = "''888888''" and now = 1700000300000 and later = 1700000300001
      and cl = "scripted (ok (Some [])) (ok None) (ok None) (ok None) (ok None)"
      and req = "incoming (Some ''tiles'') [] [(''east'', JNum 25)]"
      and w = "world0 (initial_cache\<lparr>subAdminPwd := JStr ''tiles'',
        lastSubActionTime := 1700000000000\<rparr>)", THEN conjunct1]
    rate_limiting [where pw = "''888888''" and now = 1700000600000 and later = 1700000600001
      and cl = "scripted (ok (Some [])) (ok None) (ok None) (ok None) (ok None)"
      and req = "incoming (Some ''tiles'') [] [(''east'', JNum 25)]"
      and w = "world0 (initial_cache\<lparr>subAdminPwd := JStr ''tiles'',
        lastSubActionTime := 1700000000000\<rparr>)", THEN conjunct2, THEN conjunct1]
    rate_limiting [where pw = "''888888''" and now = 1700000000001 and later = 1700000000002
      and cl = "scripted (ok (Some [])) (ok None) (ok None) (ok None) (ok None)"
      and req = "incoming (Some ''888888'') [] [(''east'', JNum 25)]"
      and w = "world0 (initial_cache\<lparr>subAdminPwd := JStr ''tiles'',
        lastSubActionTime := 1700000000000\<rparr>)", THEN conjunct2, THEN conjunct2, THEN conjunct1]
  by (simp add: world0_def incoming_def initial_cache_def authMiddleware_def COOLDOWN_def)

text \<open>
  C3. In POST /api/records the timestamp \<open>lastSubActionTime\<close> changes only when the
  insert was fulfilled without an error. For a request that reaches the insert (it is
  authenticated, and not throttled): when the store reports the error code \<^verbatim>\<open>23505\<close>
  the answer is 409; when it reports another error, or the query is rejected, the answer
  is 500 with that error's message. In all three cases the insert is the only query
  issued (there is no resynchronisation) and the cache, its timestamp included, is as
  before.
\<close>

theorem failed_insert_keeps_state:
  "(lastSubActionTime (cache (snd (post_records pw cl now later req w)))
        \<noteq> lastSubActionTime (cache w) \<longrightarrow>
      (\<exists>res d. insert_records cl (body req) (db w) = (Fulfilled res, d) \<and> error res = None))
   \<and> (authMiddleware pw (cache w) req = Inr req'
        \<and> (userRole req' = Some sub_admin \<longrightarrow> COOLDOWN \<le> now - lastSubActionTime (cache w)) \<longrightarrow>
      (insert_records cl (body req) (db w) = (Fulfilled res, d) \<and> error res = Some err
          \<and> code err = Some ''23505'' \<longrightarrow>
         post_records pw cl now later req w
           = (Conflict, w\<lparr>db := d, calls := calls w @ [InsertRecords (body req)]\<rparr>)
         \<and> status Conflict = 409)
      \<and> (insert_records cl (body req) (db w) = (Fulfilled res, d) \<and> error res = Some err
          \<and> code err \<noteq> Some ''23505'' \<longrightarrow>
         post_records pw cl now later req w
           = (ServerError (message err),
              w\<lparr>db := d, calls := calls w @ [InsertRecords (body req)]\<rparr>)
         \<and> status (ServerError (message err)) = 500)
      \<and> (insert_records cl (body req) (db w) = (Rejected e, d) \<longrightarrow>
         post_records pw cl now later req w
           = (ServerError (message e),
              w\<lparr>db := d, calls := calls w @ [InsertRecords (body req)]\<rparr>)))"
  using post_records_time [of pw cl now later req w]
    post_records_insert_error [of pw w req req' now cl res d err later]
    post_records_insert_rejected [of pw w req req' now cl e d later]
  by simp

theorem failed_insert_keeps_state_witness:
  "lastSubActionTime (cache (snd (post_records ''888888''
      (scripted (ok (Some [])) (ok None) (ok None) (ok None) (ok None))
      1700000600000 1700000600001 (incoming (Some ''tiles'') [] [(''id'', JNum 2)])
      (world0 (initial_cache\<lparr>subAdminPwd := JStr ''tiles'', lastSubActionTime := 1700000000000\<rparr>)))))
     = 1700000600001
   \<and> (\<exists>res d. insert_records
      (scripted (ok (Some [])) (ok None) (ok None) (ok None) (ok None))
      [(''id'', JNum 2)] 0 = (Fulfilled res, d) \<and> error res = None)
   \<and> post_records ''888888''
      (scripted (ok (Some [])) (ok None) (failed (Some ''23505'') ''duplicate key'') (ok None) (ok None))
      1700000600000 1700000600001 (incoming (Some ''tiles'') [] [(''id'', JNum 1)])
      (world0 (initial_cache\<lparr>subAdminPwd := JStr ''tiles'', lastSubActionTime := 1700000000000\<rparr>))
     = (Conflict,
        \<lparr>cache = initial_cache\<lparr>subAdminPwd := JStr ''tiles'', lastSubActionTime := 1700000000000\<rparr>,
         db = 1, calls = [InsertRecords [(''id'', JNum 1)]]\<rparr>)
   \<and> post_records ''888888''
      (scripted (ok (Some [])) (ok None) (failed (Some ''23502'') ''null value'') (ok None) (ok None))
      1700000600000 1700000600001 (incoming (Some ''tiles'') [] [(''id'', JNull)])
      (world0 (initial_cache\<lparr>subAdminPwd := JStr ''tiles'', lastSubActionTime := 1700000000000\<rparr>))
     = (ServerError ''null value'',
        \<lparr>cache = initial_cache\<lparr>subAdminPwd := JStr ''tiles'', lastSubActionTime := 1700000000000\<rparr>,
         db = 1, calls = [InsertRecords [(''id'', JNull)]]\<rparr>)
   \<and> post_records ''888888''
      (scripted (ok (Some [])) (ok None) (Rejected \<lparr>code = None, message = ''fetch failed''\<rparr>)
        (ok None) (ok None))
      1700000600000 1700000600001 (incoming (Some ''888888'') [] [(''id'', JNum 1)])
      (world0 (initial_cache\<lparr>subAdminPwd := JStr ''tiles'', lastSubActionTime := 1700000000000\<rparr>))
     = (ServerError ''fetch failed'',
        \<lparr>cache = initial_cache\<lparr>subAdminPwd := JStr ''tiles'', lastSubActionTime := 1700000000000\<rparr>,
         db = 1, calls = [InsertRecords [(''id'', JNum 1)]]\<rparr>)"
proof -
  have run: "lastSubActionTime (cache (snd (post_records ''888888''
      (scripted (ok (Some [])) (ok None) (ok None) (ok None) (ok None))
      1700000600000 1700000600001 (incoming (Some ''tiles'') [] [(''id'', JNum 2)])
      (world0 (initial_cache\<lparr>subAdminPwd := JStr ''tiles'', lastSubActionTime := 1700000000000\<rparr>)))))
     = 1700000600001"
    by (simp add: run_defs post_records_def authenticated_def rate_limit_def
        insert_then_sync_def catch500_def COOLDOWN_def)
  have succeeded: "\<exists>res d. insert_records
      (scripted (ok (Some [])) (ok None) (ok None) (ok None) (ok None))
      [(''id'', JNum 2)] 0 = (Fulfilled res, d) \<and> error res = None"
    using run
      failed_insert_keeps_state [where pw = "''888888''" and now = 1700000600000
        and later = 1700000600001
        and cl = "scripted (ok (Some [])) (ok None) (ok None) (ok None) (ok None)"
        and req = "incoming (Some ''tiles'') [] [(''id'', JNum 2)]"
        and w = "world0 (initial_cache\<lparr>subAdminPwd := JStr ''tiles'',
          lastSubActionTime := 1700000000000\<rparr>)",
        THEN conjunct1]
    by (simp add: world0_def incoming_def initial_cache_def)
  show ?thesis
    using run succeeded
      failed_insert_keeps_state [where pw = "''888888''" and now = 1700000600000
        and later = 1700000600001
        and cl = "scripted (ok (Some [])) (ok None) (failed (Some ''23505'') ''duplicate key'')
          (ok None) (ok None)"
        and req = "incoming (Some ''tiles'') [] [(''id'', JNum 1)]"
        and req' = "(incoming (Some ''tiles'') [] [(''id'', JNum 1)])\<lparr>userRole := Some sub_admin\<rparr>"
        and w = "world0 (initial_cache\<lparr>subAdminPwd := JStr ''tiles'',
          lastSubActionTime := 1700000000000\<rparr>)"
        and res = "\<lparr>data = None, error = Some \<lparr>code = Some ''23505'', message = ''duplicate key''\<rparr>\<rparr>"
        and err = "\<lparr>code = Some ''23505'', message = ''duplicate key''\<rparr>" and d = 1,
        THEN conjunct2]
      failed_insert_keeps_state [where pw = "''888888''" and now = 1700000600000
        and later = 1700000600001
        and cl = "scripted (ok (Some [])) (ok None) (failed (Some ''23502'') ''null value'')
          (ok None) (ok None)"
        and req = "incoming (Some ''tiles'') [] [(''id'', JNull)]"
        and req' = "(incoming (Some ''tiles'') [] [(''id'', JNull)])\<lparr>userRole := Some sub_admin\<rparr>"
        and w = "world0 (initial_cache\<lparr>subAdminPwd := JStr ''tiles'',
          lastSubActionTime := 1700000000000\<rparr>)"
        and res = "\<lparr>data = None, error = Some \<lparr>code = Some ''23502'', message = ''null value''\<rparr>\<rparr>"
        and err = "\<lparr>code = Some ''23502'', message = ''null value''\<rparr>" and d = 1,
        THEN conjunct2]
      failed_insert_keeps_state [where pw = "''888888''" and now = 1700000600000
        and later = 1700000600001
        and cl = "scripted (ok (Some [])) (ok None)
          (Rejected \<lparr>code = None, message = ''fetch failed''\<rparr>) (ok None) (ok None)"
        and req = "incoming (Some ''888888'') [] [(''id'', JNum 1)]"
        and req' = "(incoming (Some ''888888'') [] [(''id'', JNum 1)])\<lparr>userRole := Some admin\<rparr>"
        and w = "world0 (initial_cache\<lparr>subAdminPwd := JStr ''tiles'',
          lastSubActionTime := 1700000000000\<rparr>)"
        and e = "\<lparr>code = None, message = ''fetch failed''\<rparr>" and d = 1,
        THEN conjunct2]
    by (simp add: scripted_def ok_def failed_def world0_def incoming_def initial_cache_def
      authMiddleware_def COOLDOWN_def)
qed

section \<open>The super-admin gate\<close>

text \<open>
  C7. On each of the four routes behind \<open>requireSuperAdmin\<close> (writing the aliases,
  setting the sub-admin secret, updating and deleting a record) a request whose
  credential resolves to sub-admin is answered 403, not 401, and nothing else happens:
  no query is issued and the cache is unchanged. The gate lets a request pass exactly
  when its role is super-admin.
\<close>

theorem super_admin_gate:
  "(authMiddleware pw (cache w) req = Inr (req\<lparr>userRole := Some sub_admin\<rparr>) \<longrightarrow>
      post_aliases pw cl req w = (Forbidden, w)
      \<and> post_sub_password pw cl req w = (Forbidden, w)
      \<and> put_record pw cl req w = (Forbidden, w)
      \<and> delete_record pw cl req w = (Forbidden, w))
   \<and> status Forbidden = 403
   \<and> (requireSuperAdmin r = Inr r) = (userRole r = Some admin)
   \<and> (requireSuperAdmin r = Inl Forbidden) = (userRole r \<noteq> Some admin)"
  by (simp add: post_aliases_def post_sub_password_def put_record_def delete_record_def
      super_admin_only_sub_admin requireSuperAdmin_def)

theorem super_admin_gate_witness:
  "post_aliases ''888888'' (scripted (ok (Some [])) (ok None) (ok None) (ok None) (ok None))
      (incoming (Some ''tiles'') [] [(''East'', JStr ''Dong'')])
      (world0 (initial_cache\<lparr>subAdminPwd := JStr ''tiles''\<rparr>))
     = (Forbidden, world0 (initial_cache\<lparr>subAdminPwd := JStr ''tiles''\<rparr>))
   \<and> post_sub_password ''888888'' (scripted (ok (Some [])) (ok None) (ok None) (ok None) (ok None))
      (incoming (Some ''tiles'') [] [(''password'', JStr ''mine'')])
      (world0 (initial_cache\<lparr>subAdminPwd := JStr ''tiles''\<rparr>))
     = (Forbidden, world0 (initial_cache\<lparr>subAdminPwd := JStr ''tiles''\<rparr>))
   \<and> put_record ''888888'' (scripted (ok (Some [])) (ok None) (ok None) (ok None) (ok None))
      (incoming (Some ''tiles'') ''42'' [(''east'', JNum 30)])
      (world0 (initial_cache\<lparr>subAdminPwd := JStr ''tiles''\<rparr>))
     = (Forbidden, world0 (initial_cache\<lparr>subAdminPwd := JStr ''tiles''\<rparr>))
   \<and> delete_record ''888888'' (scripted (ok (Some [])) (ok None) (ok None) (ok None) (ok None))
      (incoming (Some ''tiles'') ''42'' [])
      (world0 (initial_cache\<lparr>subAdminPwd := JStr ''tiles''\<rparr>))
     = (Forbidden, world0 (initial_cache\<lparr>subAdminPwd := JStr ''tiles''\<rparr>))"
  using
    super_admin_gate [where pw = "''888888''"
      and cl = "scripted (ok (Some [])) (ok None) (ok None) (ok None) (ok None)"
      and req = "incoming (Some ''tiles'') [] [(''East'', JStr ''Dong'')]"
      and w = "world0 (initial_cache\<lparr>subAdminPwd := JStr ''tiles''\<rparr>)", THEN conjunct1]
    super_admin_gate [where pw = "''888888''"
      and cl = "scripted (ok (Some [])) (ok None) (ok None) (ok None) (ok None)"
      and req = "incoming (Some ''tiles'') [] [(''password'', JStr ''mine'')]"
      and w = "world0 (initial_cache\<lparr>subAdminPwd := JStr ''tiles''\<rparr>)", THEN conjunct1]
    super_admin_gate [where pw = "''888888''"
      and cl = "scripted (ok (Some [])) (ok None) (ok None) (ok None) (ok None)"
      and req = "incoming (Some ''tiles'') ''42'' [(''east'', JNum 30)]"
      and w = "world0 (initial_cache\<lparr>subAdminPwd := JStr ''tiles''\<rparr>)", THEN conjunct1]
    super_admin_gate [where pw = "''888888''"
      and cl = "scripted (ok (Some [])) (ok None) (ok None) (ok None) (ok None)"
      and req = "incoming (Some ''tiles'') ''42'' []"
      and w = "world0 (initial_cache\<lparr>subAdminPwd := JStr ''tiles''\<rparr>)", THEN conjunct1]
  by (simp add: world0_def incoming_def initial_cache_def authMiddleware_def)

section \<open>Deleting a record\<close>







section \<open>Updating a record\<close>

lemma update_attempts_rejected:
  "update_records cl updates (JStr ident) (db w) = (Rejected e, d1) \<Longrightarrow>
   update_attempts cl ident updates w
     = (Rejected e, after w (UpdateRecords updates (JStr ident)) d1)"
  by (simp add: update_attempts_def issue_eq)




lemma update_then_sync_thrown:
  "update_attempts cl (id_param req) (AList.delete ''id'' (body req)) w = (Rejected e, w1) \<Longrightarrow>
   update_then_sync cl req w = (Rejected e, w1)"
  by (simp add: update_then_sync_def)

lemma put_record_admin:
  "token req = Some pw \<Longrightarrow>
   put_record pw cl req w = catch500 (update_then_sync cl (req\<lparr>userRole := Some admin\<rparr>) w)"
  by (simp add: put_record_def super_admin_only_admin)

lemma update_then_sync_userRole:
  "update_then_sync cl (req\<lparr>userRole := r\<rparr>) w = update_then_sync cl req w"
  by (simp add: update_then_sync_def)







lemma put_record_first_rejected:
  assumes "token req = Some pw"
    and "update_records cl (AList.delete ''id'' (body req)) (JStr (id_param req)) (db w)
          = (Rejected e, d1)"
  shows "put_record pw cl req w =
     (ServerError (message e),
      w\<lparr>db := d1,
        calls := calls w @ [UpdateRecords (AList.delete ''id'' (body req)) (JStr (id_param req))]\<rparr>)"
  using assms
    update_attempts_rejected [of cl "AList.delete ''id'' (body req)" "id_param req" w e d1]
  by (simp add: put_record_admin update_then_sync_userRole update_then_sync_thrown
      catch500_def after_def)











end
